theory Spec2Isabelle
  imports Main "HOL-Library.Word"
begin

section \<open>DigiLab: the data model of app.py\<close>

text \<open>
  The program is one Python script (app.py): three SQLAlchemy tables, three insert
  functions and five Streamlit pages. Its effects are writes to the SQLite database,
  writes to the local file system, reads of the server clock, and the widgets it
  renders. Each of these is a component of an explicit \<open>world\<close> value that every
  operation takes and returns; an exception of the source is the \<open>Inl\<close> branch of
  the result, paired with the world as the exception leaves it.
\<close>

subsection \<open>Values\<close>

text \<open>
  A Python \<open>datetime.date\<close>. \<open>str(d)\<close> is the ISO form \<open>YYYY-MM-DD\<close>, which is what
  an f-string prints.
\<close>

record date =
  year :: nat
  month :: nat
  day :: nat

text \<open>A naive UTC \<open>datetime\<close>, as microseconds on the server clock's time line.\<close>

type_synonym datetime = nat

type_synonym bytes = "8 word list"

definition digit :: "nat \<Rightarrow> char" where
  "digit n = ''0123456789'' ! n"

fun str_nat :: "nat \<Rightarrow> string" where
  "str_nat n = (if n < 10 then [digit n] else str_nat (n div 10) @ [digit (n mod 10)])"

declare str_nat.simps [simp del]

definition zfill :: "nat \<Rightarrow> string \<Rightarrow> string" where
  "zfill k s = replicate (k - length s) (CHR ''0'') @ s"

definition str_date :: "date \<Rightarrow> string" where
  "str_date d = zfill 4 (str_nat (year d)) @ ''-'' @ zfill 2 (str_nat (month d))
                @ ''-'' @ zfill 2 (str_nat (day d))"

text \<open>
  Python truthiness of an optional string, as in \<open>if result.notes:\<close>: \<open>None\<close> and the
  empty string are false.
\<close>

definition truthy :: "string option \<Rightarrow> bool" where
  "truthy v = (case v of None \<Rightarrow> False | Some s \<Rightarrow> s \<noteq> [])"

text \<open>What an f-string prints for an optional string: \<open>None\<close> prints as the word None.\<close>

definition str_opt :: "string option \<Rightarrow> string" where
  "str_opt v = (case v of None \<Rightarrow> ''None'' | Some s \<Rightarrow> s)"

subsection \<open>Rows\<close>

text \<open>
  One record per mapped class (lines 21-48). The primary key \<open>id\<close> of each class
  is named \<open>p_id\<close>, \<open>d_id\<close>, \<open>r_id\<close> because \<open>id\<close> is the identity function of HOL,
  \<open>Doctor.name\<close> is \<open>d_name\<close>, and \<open>LabResult.notes\<close> is \<open>notes'\<close> (\<open>notes\<close> is a
  keyword of Isabelle). A column declared \<open>nullable=False\<close> has its plain type in the
  row; a nullable column is an \<open>option\<close>.
\<close>

record Patient =
  p_id :: int
  first_name :: string
  last_name :: string
  date_of_birth :: date
  gender :: string

record Doctor =
  d_id :: int
  d_name :: string
  specialization :: string

record LabResult =
  r_id :: int
  patient_id :: int
  test_type :: string
  test_date :: date
  result_date :: date
  file_path :: string
  notes' :: "string option"
  status :: "string option"
  lab_technician :: "string option"
  uploaded_at :: "datetime option"

text \<open>
  The transient objects the constructors build before the session inserts them: every
  attribute may still be \<open>None\<close>, and the primary key is not assigned yet.
\<close>

record Patient_obj =
  o_first_name :: "string option"
  o_last_name :: "string option"
  o_date_of_birth :: "date option"
  o_gender :: "string option"

record Doctor_obj =
  o_name :: "string option"
  o_specialization :: "string option"

record LabResult_obj =
  o_patient_id :: "int option"
  o_test_type :: "string option"
  o_test_date :: "date option"
  o_result_date :: "date option"
  o_file_path :: "string option"
  o_notes :: "string option"
  o_status :: "string option"
  o_lab_technician :: "string option"
  o_uploaded_at :: "datetime option"

subsection \<open>The world\<close>

datatype error =
    IntegrityError
  | FileExistsError
  | FileNotFoundError
  | IsADirectoryError
  | AttributeError
  | OverflowError
  | StreamlitDuplicateElementId

text \<open>
  The three tables in insertion order, the file system (regular files by path, and the
  set of directories), and the server clock. \<open>drift\<close> is the environment's part of the
  clock: the time that passes before each successive reading of it; the clock never
  runs backwards. Paths are compared as the strings the program builds (no symbolic
  links, no normalisation), on a POSIX system.
\<close>

record world =
  patients :: "Patient list"
  doctors :: "Doctor list"
  lab_results :: "LabResult list"
  files :: "string \<rightharpoonup> bytes"
  dirs :: "string set"
  clock :: datetime
  drift :: "nat list"

type_synonym 'a io = "world \<Rightarrow> (error + 'a) \<times> world"

definition bind_io :: "'a io \<Rightarrow> ('a \<Rightarrow> 'b io) \<Rightarrow> 'b io" where
  "bind_io m f w = (case m w of (Inl e, w') \<Rightarrow> (Inl e, w') | (Inr x, w') \<Rightarrow> f x w')"

definition return_io :: "'a \<Rightarrow> 'a io" where
  "return_io x w = (Inr x, w)"

text \<open>\<open>datetime.utcnow()\<close>: the next reading of the clock.\<close>

definition utcnow :: "world \<Rightarrow> datetime \<times> world" where
  "utcnow w = (case drift w of
       [] \<Rightarrow> (clock w, w)
     | d # ds \<Rightarrow> (clock w + d, w\<lparr>clock := clock w + d, drift := ds\<rparr>))"

subsection \<open>os.path and the file system\<close>

text \<open>\<open>posixpath.join\<close> of two components, \<open>posixpath.basename\<close>, \<open>posixpath.dirname\<close>.\<close>

definition path_join :: "string \<Rightarrow> string \<Rightarrow> string" where
  "path_join a b =
     (if b \<noteq> [] \<and> hd b = CHR ''/'' then b
      else if a = [] \<or> last a = CHR ''/'' then a @ b
      else a @ ''/'' @ b)"

definition basename :: "string \<Rightarrow> string" where
  "basename p = rev (takeWhile (\<lambda>c. c \<noteq> CHR ''/'') (rev p))"

definition dirname :: "string \<Rightarrow> string" where
  "dirname p =
     (let h = rev (dropWhile (\<lambda>c. c \<noteq> CHR ''/'') (rev p))
      in if h \<noteq> [] \<and> filter (\<lambda>c. c \<noteq> CHR ''/'') h \<noteq> []
         then rev (dropWhile (\<lambda>c. c = CHR ''/'') (rev h)) else h)"

text \<open>\<open>os.path.exists\<close>: a regular file or a directory is there.\<close>

definition path_exists :: "world \<Rightarrow> string \<Rightarrow> bool" where
  "path_exists w p = (files w p \<noteq> None \<or> p \<in> dirs w)"

text \<open>
  \<open>os.makedirs(d, exist_ok=True)\<close> for a directory name of one component: nothing
  happens when the directory exists, a regular file of that name is an error.
\<close>

definition makedirs :: "string \<Rightarrow> unit io" where
  "makedirs d w =
     (if d \<in> dirs w then (Inr (), w)
      else if files w d \<noteq> None then (Inl FileExistsError, w)
      else (Inr (), w\<lparr>dirs := insert d (dirs w)\<rparr>))"

text \<open>
  \<open>with open(p, "wb") as f: f.write(data)\<close>: the file is created or truncated and
  holds exactly \<open>data\<close> when the block is left. Opening fails when \<open>p\<close> names a
  directory or when its parent directory is missing (the empty parent is the working
  directory).
\<close>

definition write_file :: "string \<Rightarrow> bytes \<Rightarrow> unit io" where
  "write_file p data w =
     (if p = [] then (Inl FileNotFoundError, w)
      else if p \<in> dirs w \<or> basename p \<in> {[], ''.'', ''..''} then (Inl IsADirectoryError, w)
      else if dirname p \<noteq> [] \<and> dirname p \<notin> dirs w then (Inl FileNotFoundError, w)
      else (Inr (), w\<lparr>files := (files w)(p \<mapsto> data)\<rparr>))"

text \<open>\<open>with open(p, "rb") as f\<close>, read in full.\<close>

definition read_file :: "string \<Rightarrow> bytes io" where
  "read_file p w =
     (if p \<in> dirs w then (Inl IsADirectoryError, w)
      else case files w p of None \<Rightarrow> (Inl FileNotFoundError, w) | Some data \<Rightarrow> (Inr data, w))"

section \<open>Record operations\<close>

subsection \<open>The session: add and commit\<close>

text \<open>
  SQLite gives a new row of an \<open>INTEGER PRIMARY KEY\<close> table the key 1 in an empty table
  and one more than the largest key otherwise.
\<close>

fun next_id :: "int list \<Rightarrow> int" where
  "next_id [] = 1"
| "next_id (x # xs) = fold max xs x + 1"

text \<open>
  \<open>session.add(obj); session.commit()\<close> on the script's session, which holds no other
  pending object: the INSERT assigns the key and fails with \<open>IntegrityError\<close> when a
  column declared \<open>nullable=False\<close> is \<open>None\<close>; a failed INSERT is rolled back and leaves
  the table as it was. The object the caller holds afterwards is the stored row.
\<close>

definition commit_patient :: "Patient_obj \<Rightarrow> Patient io" where
  "commit_patient obj w =
     (case (o_first_name obj, o_last_name obj, o_date_of_birth obj, o_gender obj) of
        (Some f, Some l, Some d, Some g) \<Rightarrow>
          (let row = \<lparr>p_id = next_id (map p_id (patients w)), first_name = f, last_name = l,
                      date_of_birth = d, gender = g\<rparr>
           in (Inr row, w\<lparr>patients := patients w @ [row]\<rparr>))
      | _ \<Rightarrow> (Inl IntegrityError, w))"

definition commit_doctor :: "Doctor_obj \<Rightarrow> Doctor io" where
  "commit_doctor obj w =
     (case (o_name obj, o_specialization obj) of
        (Some n, Some s) \<Rightarrow>
          (let row = \<lparr>d_id = next_id (map d_id (doctors w)), d_name = n, specialization = s\<rparr>
           in (Inr row, w\<lparr>doctors := doctors w @ [row]\<rparr>))
      | _ \<Rightarrow> (Inl IntegrityError, w))"

text \<open>
  For a lab result the INSERT first fills the columns that have a default and were left
  \<open>None\<close>: \<open>status\<close> (line 45, the constant "pending") and \<open>uploaded_at\<close> (line 47, the
  callable \<open>datetime.utcnow\<close>, called at this moment). Binding the parameters comes
  next: a Python integer outside the range of an SQLite INTEGER (64 bits, signed) raises
  \<open>OverflowError\<close>. Then the statement runs and the \<open>nullable=False\<close> columns are
  checked. A \<open>patient_id\<close> in range is stored as given: the program never switches
  SQLite's foreign-key enforcement on, and nothing here looks the patient up.
\<close>

definition sqlite_integer :: "int \<Rightarrow> bool" where
  "sqlite_integer x = (- (2 ^ 63) \<le> x \<and> x < 2 ^ 63)"

definition commit_lab_result :: "LabResult_obj \<Rightarrow> LabResult io" where
  "commit_lab_result obj w =
     (let st = (case o_status obj of None \<Rightarrow> Some ''pending'' | Some s \<Rightarrow> Some s);
          (up, w1) = (case o_uploaded_at obj of
                        None \<Rightarrow> (let (t, w') = utcnow w in (Some t, w'))
                      | Some t \<Rightarrow> (Some t, w))
      in if (case o_patient_id obj of None \<Rightarrow> False | Some pid \<Rightarrow> \<not> sqlite_integer pid)
         then (Inl OverflowError, w1)
         else
           (case (o_patient_id obj, o_test_type obj, o_test_date obj, o_result_date obj,
                  o_file_path obj) of
              (Some pid, Some tt, Some td, Some rd, Some fp) \<Rightarrow>
                (let row = \<lparr>r_id = next_id (map r_id (lab_results w1)), patient_id = pid,
                            test_type = tt, test_date = td, result_date = rd, file_path = fp,
                            notes' = o_notes obj, status = st,
                            lab_technician = o_lab_technician obj, uploaded_at = up\<rparr>
                 in (Inr row, w1\<lparr>lab_results := lab_results w1 @ [row]\<rparr>))
            | _ \<Rightarrow> (Inl IntegrityError, w1)))"

subsection \<open>The utility functions (lines 59-89)\<close>

text \<open>
  The arguments are the Python values the caller passes, \<open>None\<close> included; the session
  argument is the world. Primed names are the parameters of the source.
\<close>

definition add_patient ::
  "string option \<Rightarrow> string option \<Rightarrow> date option \<Rightarrow> string option \<Rightarrow> Patient io" where
  "add_patient first_name' last_name' dob gender' =
     commit_patient \<lparr>o_first_name = first_name', o_last_name = last_name',
                     o_date_of_birth = dob, o_gender = gender'\<rparr>"

definition add_doctor :: "string option \<Rightarrow> string option \<Rightarrow> Doctor io" where
  "add_doctor name' specialization' =
     commit_doctor \<lparr>o_name = name', o_specialization = specialization'\<rparr>"

definition add_lab_result ::
  "int option \<Rightarrow> string option \<Rightarrow> date option \<Rightarrow> date option \<Rightarrow> string option \<Rightarrow>
   string option \<Rightarrow> string option \<Rightarrow> LabResult io" where
  "add_lab_result patient_id' test_type' test_date' result_date' file_path' notes technician =
     commit_lab_result
       \<lparr>o_patient_id = patient_id', o_test_type = test_type', o_test_date = test_date',
        o_result_date = result_date', o_file_path = file_path', o_notes = notes,
        o_status = Some ''completed'', o_lab_technician = technician,
        o_uploaded_at = None\<rparr>"

section \<open>The Streamlit pages (lines 97-180)\<close>

subsection \<open>Widgets and form input\<close>

text \<open>
  What a run of the script renders: the elements in the order of the calls, a form or an
  expander holding the elements rendered inside its \<open>with\<close> block. A download button
  carries its label, the bytes read from the file and the offered file name.
\<close>

datatype widget =
    Subheader string
  | Write string
  | Success string
  | Warning string
  | Error string
  | Info string
  | TextInput string
  | DateInput string
  | TextArea string
  | Selectbox string "string list"
  | FileUploader string "string list"
  | FormSubmitButton string
  | Form string "widget list"
  | Expander string "widget list"
  | DownloadButton string bytes string

text \<open>\<open>rerun\<close> is set when the run ended in \<open>rerun()\<close> (lines 10-15).\<close>

record page_out =
  widgets :: "widget list"
  rerun :: bool

text \<open>
  The values of the widgets of one run. A select box holds the position of the chosen
  option; \<open>st.selectbox\<close> returns the option at that position, the first option when the
  position is not one of the list, and \<open>None\<close> when there are no options.
\<close>

definition selectbox :: "'a list \<Rightarrow> nat \<Rightarrow> 'a option" where
  "selectbox opts i =
     (case opts of [] \<Rightarrow> None | x # _ \<Rightarrow> if i < length opts then Some (opts ! i) else Some x)"

record patient_form =
  pf_first_name :: string
  pf_last_name :: string
  pf_dob :: date
  pf_gender :: nat
  pf_submitted :: bool

record doctor_form =
  df_name :: string
  df_specialization :: string
  df_submitted :: bool

text \<open>An uploaded file: \<open>file.name\<close> and \<open>file.getbuffer()\<close>.\<close>

record UploadedFile =
  uf_name :: string
  getbuffer :: bytes

record lab_result_form =
  lf_patient :: nat
  lf_test_type :: string
  lf_test_date :: date
  lf_result_date :: date
  lf_file :: "UploadedFile option"
  lf_notes :: string
  lf_technician :: string
  lf_submitted :: bool

subsection \<open>Queries\<close>

text \<open>\<open>session.query(Patient).get(x)\<close>, also the target of \<open>result.patient\<close>.\<close>

definition query_get :: "world \<Rightarrow> int \<Rightarrow> Patient option" where
  "query_get w x = find (\<lambda>p. p_id p = x) (patients w)"

fun mapM_sum :: "('a \<Rightarrow> error + 'b) \<Rightarrow> 'a list \<Rightarrow> error + 'b list" where
  "mapM_sum f [] = Inr []"
| "mapM_sum f (x # xs) =
     (case f x of
        Inl e \<Rightarrow> Inl e
      | Inr y \<Rightarrow> (case mapM_sum f xs of Inl e \<Rightarrow> Inl e | Inr ys \<Rightarrow> Inr (y # ys)))"

text \<open>
  The \<open>format_func\<close> of line 141; reading an attribute of the \<open>None\<close> that \<open>get\<close> returns for
  an unknown key raises \<open>AttributeError\<close>.
\<close>

definition format_func :: "world \<Rightarrow> int \<Rightarrow> error + string" where
  "format_func w x =
     (case query_get w x of
        None \<Rightarrow> Inl AttributeError
      | Some p \<Rightarrow> Inr (first_name p @ '' '' @ last_name p))"

subsection \<open>Register Patient, Register Doctor (lines 109-131)\<close>

definition genders :: "string list" where
  "genders = [''male'', ''female'', ''other'']"

definition register_patient_page :: "patient_form \<Rightarrow> page_out io" where
  "register_patient_page inp w =
     (let form = [TextInput ''First Name'', TextInput ''Last Name'',
                  DateInput ''Date of Birth'', Selectbox ''Gender'' genders,
                  FormSubmitButton ''Register'']
      in if pf_submitted inp then
           bind_io (add_patient (Some (pf_first_name inp)) (Some (pf_last_name inp))
                      (Some (pf_dob inp)) (selectbox genders (pf_gender inp)))
             (\<lambda>_. return_io
                \<lparr>widgets = [Subheader ''Register Patient'',
                            Form ''patient_form''
                              (form @ [Success ''Patient registered successfully!''])],
                 rerun = True\<rparr>) w
         else (Inr \<lparr>widgets = [Subheader ''Register Patient'', Form ''patient_form'' form],
                    rerun = False\<rparr>, w))"

definition register_doctor_page :: "doctor_form \<Rightarrow> page_out io" where
  "register_doctor_page inp w =
     (let form = [TextInput ''Full Name'', TextInput ''Specialization'',
                  FormSubmitButton ''Register'']
      in if df_submitted inp then
           bind_io (add_doctor (Some (df_name inp)) (Some (df_specialization inp)))
             (\<lambda>_. return_io
                \<lparr>widgets = [Subheader ''Register Doctor'',
                            Form ''doctor_form''
                              (form @ [Success ''Doctor registered successfully!''])],
                 rerun = True\<rparr>) w
         else (Inr \<lparr>widgets = [Subheader ''Register Doctor'', Form ''doctor_form'' form],
                    rerun = False\<rparr>, w))"

subsection \<open>Upload Lab Result (lines 133-160)\<close>

definition save_dir :: string where
  "save_dir = ''uploaded_results''"

definition upload_types :: "string list" where
  "upload_types = [''pdf'', ''jpg'', ''jpeg'', ''png'', ''doc'', ''docx'', ''txt'']"

definition lab_result_form_widgets :: "string list \<Rightarrow> widget list" where
  "lab_result_form_widgets labels =
     [Selectbox ''Select Patient'' labels, TextInput ''Test Type'', DateInput ''Test Date'',
      DateInput ''Result Date'', FileUploader ''Upload Result File'' upload_types,
      TextArea ''Notes'', TextInput ''Lab Technician'', FormSubmitButton ''Upload'']"

text \<open>
  Lines 151-158, the branch of a submitted form with a file attached: the directory,
  the file, then the row, each step run only when the one before it has returned.
\<close>

definition save_and_record :: "lab_result_form \<Rightarrow> int option \<Rightarrow> UploadedFile \<Rightarrow> LabResult io" where
  "save_and_record inp patient_id' file =
     bind_io (makedirs save_dir) (\<lambda>_.
       let file_path' = path_join save_dir (uf_name file) in
       bind_io (write_file file_path' (getbuffer file)) (\<lambda>_.
         add_lab_result patient_id' (Some (lf_test_type inp)) (Some (lf_test_date inp))
           (Some (lf_result_date inp)) (Some file_path') (Some (lf_notes inp))
           (Some (lf_technician inp))))"

definition upload_lab_result_page :: "lab_result_form \<Rightarrow> page_out io" where
  "upload_lab_result_page inp w =
     (if patients w = [] then
        (Inr \<lparr>widgets = [Subheader ''Upload Lab Result'',
                          Warning ''No patients found. Please register a patient first.''],
              rerun = False\<rparr>, w)
      else
        (case mapM_sum (format_func w) (map p_id (patients w)) of
           Inl e \<Rightarrow> (Inl e, w)
         | Inr labels \<Rightarrow>
             (let patient_id' = selectbox (map p_id (patients w)) (lf_patient inp);
                  form = lab_result_form_widgets labels
              in if lf_submitted inp then
                   (case lf_file inp of
                      Some file \<Rightarrow>
                        bind_io (save_and_record inp patient_id' file)
                          (\<lambda>_. return_io
                             \<lparr>widgets = [Subheader ''Upload Lab Result'',
                                         Form ''lab_result_form''
                                           (form @ [Success ''Lab result uploaded successfully!''])],
                              rerun = True\<rparr>) w
                    | None \<Rightarrow>
                        (Inr \<lparr>widgets = [Subheader ''Upload Lab Result'',
                                          Form ''lab_result_form''
                                            (form @ [Error ''Please upload a file!''])],
                              rerun = False\<rparr>, w))
                 else (Inr \<lparr>widgets = [Subheader ''Upload Lab Result'',
                                        Form ''lab_result_form'' form],
                            rerun = False\<rparr>, w))))"

subsection \<open>View Lab Results (lines 162-180)\<close>

text \<open>
  One pass of the loop of lines 166-178. The label of the expander reads
  \<open>result.patient\<close> first, which is \<open>None\<close> when no patient has the key.

  Streamlit gives every widget of a run an identity computed from its parameters, and
  raises \<open>StreamlitDuplicateElementId\<close> when a run registers the same identity twice.
  Line 178 passes no \<open>key\<close> and the same label every time, so the file name told two
  download buttons apart: \<open>seen\<close> holds the file names of the buttons this run has
  rendered so far, and the pass returns it with its own button's name added.
\<close>

definition render_result ::
  "world \<Rightarrow> string list \<Rightarrow> LabResult \<Rightarrow> error + widget \<times> string list" where
  "render_result w seen r =
     (case query_get w (patient_id r) of
        None \<Rightarrow> Inl AttributeError
      | Some p \<Rightarrow>
          (let label = ''Result: '' @ test_type r @ '' | Patient: '' @ first_name p @ '' ''
                       @ last_name p;
               body = [Write (''**Test Type:** '' @ test_type r),
                       Write (''**Test Date:** '' @ str_date (test_date r)),
                       Write (''**Result Date:** '' @ str_date (result_date r)),
                       Write (''**Status:** '' @ str_opt (status r))]
                      @ (if truthy (lab_technician r)
                         then [Write (''**Lab Technician:** '' @ str_opt (lab_technician r))]
                         else [])
                      @ (if truthy (notes' r)
                         then [Write (''**Notes:** '' @ str_opt (notes' r))] else [])
           in if file_path r \<noteq> [] \<and> path_exists w (file_path r) then
                (case fst (read_file (file_path r) w) of
                   Inl e \<Rightarrow> Inl e
                 | Inr data \<Rightarrow>
                     (let file_name = basename (file_path r)
                      in if file_name \<in> set seen then Inl StreamlitDuplicateElementId
                         else Inr (Expander label
                                     (body @ [DownloadButton ''Download Result File'' data
                                                file_name]),
                                   file_name # seen)))
              else Inr (Expander label body, seen)))"

text \<open>The loop: the passes in the order of the rows, stopped by the first exception.\<close>

fun render_results :: "world \<Rightarrow> string list \<Rightarrow> LabResult list \<Rightarrow> error + widget list" where
  "render_results w seen [] = Inr []"
| "render_results w seen (r # rs) =
     (case render_result w seen r of
        Inl e \<Rightarrow> Inl e
      | Inr (x, seen') \<Rightarrow>
          (case render_results w seen' rs of Inl e \<Rightarrow> Inl e | Inr xs \<Rightarrow> Inr (x # xs)))"

definition view_lab_results_page :: "page_out io" where
  "view_lab_results_page w =
     (if lab_results w \<noteq> [] then
        (case render_results w [] (lab_results w) of
           Inl e \<Rightarrow> (Inl e, w)
         | Inr es \<Rightarrow> (Inr \<lparr>widgets = Subheader ''View Lab Results'' # es, rerun = False\<rparr>, w))
      else (Inr \<lparr>widgets = [Subheader ''View Lab Results'', Info ''No lab results found.''],
                 rerun = False\<rparr>, w))"

subsection \<open>Navigation (lines 97-107)\<close>

text \<open>
  One interaction: the menu choice with the values of that page's widgets. The script
  dispatches on the choice; a run that ends in \<open>rerun()\<close> is followed by a run of the same
  page with the submit button released.
\<close>

datatype request =
    Home
  | Register_Patient patient_form
  | Register_Doctor doctor_form
  | Upload_Lab_Result lab_result_form
  | View_Lab_Results

definition home_page :: "page_out io" where
  "home_page w =
     (Inr \<lparr>widgets = [Subheader ''Welcome to DigiLab'',
                       Write ''This is a digital laboratory results management system.''],
           rerun = False\<rparr>, w)"

fun script :: "request \<Rightarrow> page_out io" where
  "script Home = home_page"
| "script (Register_Patient inp) = register_patient_page inp"
| "script (Register_Doctor inp) = register_doctor_page inp"
| "script (Upload_Lab_Result inp) = upload_lab_result_page inp"
| "script View_Lab_Results = view_lab_results_page"

fun released :: "request \<Rightarrow> request" where
  "released (Register_Patient inp) = Register_Patient (inp\<lparr>pf_submitted := False\<rparr>)"
| "released (Register_Doctor inp) = Register_Doctor (inp\<lparr>df_submitted := False\<rparr>)"
| "released (Upload_Lab_Result inp) = Upload_Lab_Result (inp\<lparr>lf_submitted := False\<rparr>)"
| "released req = req"

definition app :: "request \<Rightarrow> page_out io" where
  "app req w =
     (case script req w of
        (Inl e, w') \<Rightarrow> (Inl e, w')
      | (Inr out, w') \<Rightarrow> if rerun out then script (released req) w' else (Inr out, w'))"

section \<open>Properties\<close>

subsection \<open>Vocabulary\<close>

text \<open>The file names of the download buttons an element is or holds.\<close>

fun download_names :: "widget \<Rightarrow> string list" where
  "download_names (DownloadButton _ _ n) = [n]"
| "download_names (Form _ ws) = concat (map download_names ws)"
| "download_names (Expander _ ws) = concat (map download_names ws)"
| "download_names _ = []"

subsection \<open>Sample data\<close>

text \<open>
  A new installation, a clinic with one registered patient, two uploads of a file
  named a.pdf and one of a file named c.pdf, and the worlds those uploads lead to.
\<close>

definition sample_date :: date where
  "sample_date = \<lparr>year = 2024, month = 3, day = 7\<rparr>"

definition fresh_world :: world where
  "fresh_world = \<lparr>patients = [], doctors = [], lab_results = [], files = Map.empty,
                   dirs = {}, clock = 100, drift = [5, 7]\<rparr>"

definition ada :: Patient where
  "ada = \<lparr>p_id = 1, first_name = ''Ada'', last_name = ''Lovelace'',
           date_of_birth = \<lparr>year = 1815, month = 12, day = 10\<rparr>, gender = ''female''\<rparr>"

definition clinic_world :: world where
  "clinic_world = fresh_world\<lparr>patients := [ada]\<rparr>"

definition report_a :: UploadedFile where
  "report_a = \<lparr>uf_name = ''a.pdf'', getbuffer = [1, 2, 3]\<rparr>"

definition report_b :: UploadedFile where
  "report_b = \<lparr>uf_name = ''a.pdf'', getbuffer = [4, 5]\<rparr>"

definition upload_a :: lab_result_form where
  "upload_a = \<lparr>lf_patient = 0, lf_test_type = ''CBC'', lf_test_date = sample_date,
                lf_result_date = sample_date, lf_file = Some report_a, lf_notes = '''',
                lf_technician = ''Kim'', lf_submitted = True\<rparr>"

definition upload_b :: lab_result_form where
  "upload_b = upload_a\<lparr>lf_test_type := ''Lipid panel'', lf_file := Some report_b\<rparr>"

definition stored_a :: LabResult where
  "stored_a = \<lparr>r_id = 1, patient_id = 1, test_type = ''CBC'', test_date = sample_date,
                result_date = sample_date, file_path = ''uploaded_results/a.pdf'',
                notes' = Some '''', status = Some ''completed'',
                lab_technician = Some ''Kim'', uploaded_at = Some 105\<rparr>"

definition stored_b :: LabResult where
  "stored_b = stored_a\<lparr>r_id := 2, test_type := ''Lipid panel'', uploaded_at := Some 112\<rparr>"

definition after_a :: world where
  "after_a = clinic_world\<lparr>lab_results := [stored_a],
               files := [''uploaded_results/a.pdf'' \<mapsto> [1, 2, 3]],
               dirs := {''uploaded_results''}, clock := 105, drift := [7]\<rparr>"

definition after_b :: world where
  "after_b = after_a\<lparr>lab_results := [stored_a, stored_b],
               files := [''uploaded_results/a.pdf'' \<mapsto> [4, 5]], clock := 112, drift := []\<rparr>"

definition uploaded_out :: page_out where
  "uploaded_out =
     \<lparr>widgets = [Subheader ''Upload Lab Result'',
                 Form ''lab_result_form''
                   (lab_result_form_widgets [''Ada Lovelace'']
                    @ [Success ''Lab result uploaded successfully!''])],
      rerun = True\<rparr>"

definition report_c :: UploadedFile where
  "report_c = \<lparr>uf_name = ''c.pdf'', getbuffer = [6]\<rparr>"

definition upload_c :: lab_result_form where
  "upload_c = upload_a\<lparr>lf_test_type := ''HbA1c'', lf_file := Some report_c\<rparr>"

definition stored_c :: LabResult where
  "stored_c = stored_a\<lparr>r_id := 3, test_type := ''HbA1c'',
                file_path := ''uploaded_results/c.pdf'', uploaded_at := Some 112\<rparr>"

definition after_c :: world where
  "after_c = after_b\<lparr>lab_results := [stored_a, stored_b, stored_c],
               files := [''uploaded_results/a.pdf'' \<mapsto> [4, 5],
                         ''uploaded_results/c.pdf'' \<mapsto> [6]]\<rparr>"

text \<open>The clinic after the three uploads, with the file c.pdf removed from the disk.\<close>

definition shared_name_world :: world where
  "shared_name_world = after_c\<lparr>files := (files after_c)(''uploaded_results/c.pdf'' := None)\<rparr>"

lemmas sample_defs = sample_date_def fresh_world_def ada_def clinic_world_def report_a_def
  report_b_def report_c_def upload_a_def upload_b_def upload_c_def stored_a_def stored_b_def
  stored_c_def after_a_def after_b_def after_c_def uploaded_out_def shared_name_world_def

lemmas run_defs = upload_lab_result_page_def save_and_record_def bind_io_def return_io_def
  format_func_def query_get_def selectbox_def makedirs_def write_file_def path_join_def
  save_dir_def basename_def dirname_def add_lab_result_def commit_lab_result_def utcnow_def
  sqlite_integer_def Let_def

lemmas listing_defs = view_lab_results_page_def render_result_def query_get_def
  path_exists_def read_file_def basename_def truthy_def str_opt_def str_date_def zfill_def
  str_nat.simps digit_def Let_def

subsection \<open>The clock, keys, lists of results\<close>

lemma utcnow_clock:
  "utcnow w = (t, w1) \<Longrightarrow>
     t = clock w1 \<and> clock w \<le> t \<and> lab_results w1 = lab_results w
     \<and> patients w1 = patients w \<and> doctors w1 = doctors w \<and> files w1 = files w
     \<and> dirs w1 = dirs w"
  by (auto simp: utcnow_def split: list.splits)

lemma fold_max_init: "(x::int) \<le> fold max xs x"
proof (induction xs arbitrary: x)
  case Nil
  then show ?case by simp
next
  case (Cons a xs)
  have "max a x \<le> fold max xs (max a x)" by (rule Cons.IH)
  then show ?case by simp
qed

lemma fold_max_ge: "y \<in> set xs \<Longrightarrow> y \<le> fold max xs (x::int)"
proof (induction xs arbitrary: x)
  case Nil
  then show ?case by simp
next
  case (Cons a xs)
  show ?case
  proof (cases "y = a")
    case True
    have "max a x \<le> fold max xs (max a x)" by (rule fold_max_init)
    then show ?thesis using True by simp
  next
    case False
    then have "y \<in> set xs" using Cons.prems by simp
    then show ?thesis using Cons.IH by simp
  qed
qed

lemma next_id_fresh: "next_id xs \<notin> set xs"
proof (cases xs)
  case Nil
  then show ?thesis by simp
next
  case (Cons x ys)
  have "\<forall>y \<in> set (x # ys). y < next_id (x # ys)"
    using fold_max_ge [of _ ys x] fold_max_init [of x ys] by fastforce
  then show ?thesis using Cons by blast
qed

lemma mapM_sum_Inr:
  "(\<And>x. x \<in> set xs \<Longrightarrow> \<exists>y. f x = Inr y) \<Longrightarrow>
     \<exists>ys. mapM_sum f xs = Inr ys \<and> length ys = length xs"
proof (induction xs)
  case Nil
  then show ?case by simp
next
  case (Cons a xs)
  obtain y where y: "f a = Inr y" using Cons.prems by fastforce
  obtain ys where ys: "mapM_sum f xs = Inr ys" "length ys = length xs"
    using Cons by fastforce
  show ?case using y ys by simp
qed

subsection \<open>Queries, paths, select boxes\<close>

lemma query_get_member: "p \<in> set (patients w) \<Longrightarrow> query_get w (p_id p) \<noteq> None"
  by (auto simp: query_get_def find_None_iff)

lemma labels_exist:
  "\<exists>labels. mapM_sum (format_func w) (map p_id (patients w)) = Inr labels
            \<and> length labels = length (patients w)"
proof -
  have "\<exists>ys. mapM_sum (format_func w) (map p_id (patients w)) = Inr ys
            \<and> length ys = length (map p_id (patients w))"
  proof (rule mapM_sum_Inr)
    fix x assume "x \<in> set (map p_id (patients w))"
    then obtain p where "p \<in> set (patients w)" "x = p_id p" by auto
    then have "query_get w x \<noteq> None" using query_get_member by blast
    then show "\<exists>y. format_func w x = Inr y"
      by (auto simp: format_func_def)
  qed
  then show ?thesis by simp
qed

lemma takeWhile_sep:
  "CHR ''/'' \<notin> set n \<Longrightarrow>
     takeWhile (\<lambda>c. c \<noteq> CHR ''/'') (rev n @ CHR ''/'' # xs) = rev n"
  by (induction n rule: rev_induct) auto

lemma path_join_plain: "CHR ''/'' \<notin> set n \<Longrightarrow> path_join save_dir n = save_dir @ ''/'' @ n"
  by (cases n) (auto simp: path_join_def save_dir_def)

lemma basename_append: "CHR ''/'' \<notin> set n \<Longrightarrow> basename (a @ ''/'' @ n) = n"
  by (simp add: basename_def takeWhile_sep)

lemma selectbox_member:
  assumes "selectbox opts i = Some x"
  shows "x \<in> set opts"
proof (cases opts)
  case Nil
  then show ?thesis using assms by (simp add: selectbox_def)
next
  case (Cons a as)
  show ?thesis
  proof (cases "i < length opts")
    case True
    then have "x = opts ! i" using assms Cons by (simp add: selectbox_def)
    then show ?thesis using True nth_mem by blast
  next
    case False
    then have "x = a" using assms Cons by (simp add: selectbox_def)
    then show ?thesis using Cons by simp
  qed
qed

subsection \<open>The steps of an upload\<close>

lemma add_lab_result_valid:
  "sqlite_integer pid \<Longrightarrow>
   add_lab_result (Some pid) (Some tt) (Some td) (Some rd) (Some fp) n t w =
     (let (ts, w1) = utcnow w;
          row = \<lparr>r_id = next_id (map r_id (lab_results w1)), patient_id = pid,
                         test_type = tt, test_date = td, result_date = rd, file_path = fp,
                         notes' = n, status = Some ''completed'',
                         lab_technician = t, uploaded_at = Some ts\<rparr>
      in (Inr row, w1\<lparr>lab_results := lab_results w1 @ [row]\<rparr>))"
  by (simp add: add_lab_result_def commit_lab_result_def Let_def split: prod.splits)

lemma makedirs_Inr:
  "makedirs d w = (Inr u, w1) \<Longrightarrow> w1 = w\<lparr>dirs := insert d (dirs w)\<rparr>"
  by (auto simp: makedirs_def insert_absorb split: if_splits)


lemma write_file_Inr:
  "write_file p data w = (Inr u, w2) \<Longrightarrow>
     w2 = w\<lparr>files := (files w)(p \<mapsto> data)\<rparr> \<and> p \<notin> dirs w \<and> p \<noteq> []"
  by (auto simp: write_file_def split: if_splits)


lemma add_lab_result_Inr:
  "add_lab_result pid tt td rd fp n t w = (Inr r, w') \<Longrightarrow>
     lab_results w' = lab_results w @ [r] \<and> patients w' = patients w \<and> files w' = files w
     \<and> dirs w' = dirs w \<and> status r = Some ''completed'' \<and> pid = Some (patient_id r)
     \<and> fp = Some (file_path r)"
  by (auto simp: add_lab_result_def commit_lab_result_def Let_def
           split: prod.splits option.splits if_splits dest: utcnow_clock)


lemma save_and_record_Inr:
  assumes "save_and_record inp pid f w = (Inr r, w')"
  shows "\<exists>w1 w2. makedirs save_dir w = (Inr (), w1)
           \<and> write_file (path_join save_dir (uf_name f)) (getbuffer f) w1 = (Inr (), w2)
           \<and> add_lab_result pid (Some (lf_test_type inp)) (Some (lf_test_date inp))
                (Some (lf_result_date inp)) (Some (path_join save_dir (uf_name f)))
                (Some (lf_notes inp)) (Some (lf_technician inp)) w2 = (Inr r, w')"
  using assms
  by (auto simp: save_and_record_def bind_io_def Let_def split: prod.splits sum.splits)


lemma upload_with_file:
  assumes "patients w \<noteq> []" "lf_submitted inp" "lf_file inp = Some f"
  shows "\<exists>labels. length labels = length (patients w) \<and> upload_lab_result_page inp w =
           (case save_and_record inp (selectbox (map p_id (patients w)) (lf_patient inp)) f w of
              (Inl e, w') \<Rightarrow> (Inl e, w')
            | (Inr r, w') \<Rightarrow>
                (Inr \<lparr>widgets = [Subheader ''Upload Lab Result'',
                                  Form ''lab_result_form''
                                    (lab_result_form_widgets labels
                                     @ [Success ''Lab result uploaded successfully!''])],
                      rerun = True\<rparr>, w'))"
proof -
  obtain labels where l: "mapM_sum (format_func w) (map p_id (patients w)) = Inr labels"
      "length labels = length (patients w)"
    using labels_exist by blast
  show ?thesis
    using assms l
    by (auto simp: upload_lab_result_page_def bind_io_def return_io_def Let_def
             split: prod.splits sum.splits)
qed

lemma upload_success:
  assumes "patients w \<noteq> []" "lf_submitted inp" "lf_file inp = Some f"
    and "upload_lab_result_page inp w = (Inr out, w')"
  shows "\<exists>w2 r. files w2 (path_join save_dir (uf_name f)) = Some (getbuffer f)
           \<and> lab_results w2 = lab_results w
           \<and> add_lab_result (selectbox (map p_id (patients w)) (lf_patient inp))
                (Some (lf_test_type inp)) (Some (lf_test_date inp))
                (Some (lf_result_date inp)) (Some (path_join save_dir (uf_name f)))
                (Some (lf_notes inp)) (Some (lf_technician inp)) w2 = (Inr r, w')
           \<and> lab_results w' = lab_results w @ [r]
           \<and> file_path r = path_join save_dir (uf_name f)
           \<and> files w' = (files w)(file_path r \<mapsto> getbuffer f)
           \<and> dirs w' = insert save_dir (dirs w)
           \<and> file_path r \<notin> dirs w' \<and> file_path r \<noteq> []
           \<and> patients w' = patients w
           \<and> patient_id r \<in> set (map p_id (patients w))"
proof -
  let ?pid = "selectbox (map p_id (patients w)) (lf_patient inp)"
  obtain res w'' where res: "save_and_record inp ?pid f w = (res, w'')"
    by (cases "save_and_record inp ?pid f w") blast
  have "\<exists>r. res = Inr r \<and> w'' = w'"
    using upload_with_file [OF assms(1-3)] assms(4) res by (cases res) auto
  then obtain r where sr: "save_and_record inp ?pid f w = (Inr r, w')"
    using res by blast
  from save_and_record_Inr [OF sr] obtain w1 w2 where
    m: "makedirs save_dir w = (Inr (), w1)" and
    wr: "write_file (path_join save_dir (uf_name f)) (getbuffer f) w1 = (Inr (), w2)" and
    a: "add_lab_result ?pid (Some (lf_test_type inp)) (Some (lf_test_date inp))
                (Some (lf_result_date inp)) (Some (path_join save_dir (uf_name f)))
                (Some (lf_notes inp)) (Some (lf_technician inp)) w2 = (Inr r, w')"
    by blast
  note m' = makedirs_Inr [OF m] and wr' = write_file_Inr [OF wr] and a' = add_lab_result_Inr [OF a]
  have pid: "patient_id r \<in> set (map p_id (patients w))"
    using a' selectbox_member [of "map p_id (patients w)" "lf_patient inp" "patient_id r"] by simp
  show ?thesis
    using m' wr' a' a pid by (intro exI [of _ w2] exI [of _ r]) simp
qed

subsection \<open>One pass of the listing\<close>

lemma render_result_names:
  "render_result w seen r = Inr (x, seen') \<Longrightarrow>
     set (download_names x) \<subseteq> {basename (file_path r)}"
  by (auto simp: render_result_def Let_def split: option.splits sum.splits if_splits)

subsection \<open>The sample uploads, run\<close>

lemma upload_a_runs: "upload_lab_result_page upload_a clinic_world = (Inr uploaded_out, after_a)"
  by (simp add: sample_defs run_defs)

lemma upload_b_runs: "upload_lab_result_page upload_b after_a = (Inr uploaded_out, after_b)"
  by (simp add: sample_defs run_defs)

lemma upload_c_runs: "upload_lab_result_page upload_c after_b = (Inr uploaded_out, after_c)"
  by (simp add: sample_defs run_defs)

section \<open>The claims\<close>

subsection \<open>Record operations\<close>

text \<open>
  C1 (as amended). Every call of \<open>add_lab_result\<close> that returns has created and persisted
  exactly one row, the row it returns, and the status of that row is "completed", not
  the schema default "pending".
\<close>

theorem add_lab_result_returns_completed_row:
  assumes "add_lab_result pid tt td rd fp n t w = (Inr r, w')"
  shows "status r = Some ''completed'' \<and> status r \<noteq> Some ''pending''
         \<and> lab_results w' = lab_results w @ [r]"
  using add_lab_result_Inr [OF assms] by simp

theorem add_lab_result_returns_completed_row_witness:
  "add_lab_result (Some 1) (Some ''CBC'') (Some sample_date) (Some sample_date)
     (Some ''uploaded_results/a.pdf'') (Some '''') (Some ''Kim'') clinic_world
   = (Inr stored_a, clinic_world\<lparr>lab_results := [stored_a], clock := 105, drift := [7]\<rparr>)
   \<and> status stored_a = Some ''completed'' \<and> status stored_a \<noteq> Some ''pending''
   \<and> lab_results (clinic_world\<lparr>lab_results := [stored_a], clock := 105, drift := [7]\<rparr>)
       = lab_results clinic_world @ [stored_a]"
proof -
  have run: "add_lab_result (Some 1) (Some ''CBC'') (Some sample_date) (Some sample_date)
     (Some ''uploaded_results/a.pdf'') (Some '''') (Some ''Kim'') clinic_world
   = (Inr stored_a, clinic_world\<lparr>lab_results := [stored_a], clock := 105, drift := [7]\<rparr>)"
    by (simp add: sample_defs run_defs)
  show ?thesis
    using run add_lab_result_returns_completed_row [OF run] by simp
qed

text \<open>
  C1 as stated ("for every call") fails: a call that passes \<open>None\<close> for the test type
  raises \<open>IntegrityError\<close>, returns no row and leaves the table empty.
\<close>

theorem add_lab_result_without_test_type_rejected:
  "add_lab_result (Some 1) None (Some sample_date) (Some sample_date)
     (Some ''uploaded_results/a.pdf'') None None clinic_world
   = (Inl IntegrityError, clinic_world\<lparr>clock := 105, drift := [7]\<rparr>)
   \<and> lab_results (clinic_world\<lparr>clock := 105, drift := [7]\<rparr>) = []"
  by (simp add: sample_defs run_defs)

text \<open>
  C2. For valid inputs (a value for each of first name, last name, date of birth and
  gender) \<open>add_patient\<close> returns a row and changes the world only by appending that one
  row to the patients table; the four fields of the row are the inputs; its key is not
  the key of any row that was there.
\<close>

theorem add_patient_persists_inputs:
  "\<exists>r. add_patient (Some f) (Some l) (Some d) (Some g) w
         = (Inr r, w\<lparr>patients := patients w @ [r]\<rparr>)
       \<and> first_name r = f \<and> last_name r = l \<and> date_of_birth r = d \<and> gender r = g
       \<and> p_id r \<notin> set (map p_id (patients w))"
  using next_id_fresh [of "map p_id (patients w)"]
  by (simp add: add_patient_def commit_patient_def Let_def)

theorem add_patient_persists_inputs_witness:
  "\<exists>r. add_patient (Some ''Grace'') (Some ''Hopper'') (Some sample_date) (Some ''female'')
           clinic_world
         = (Inr r, clinic_world\<lparr>patients := patients clinic_world @ [r]\<rparr>)
       \<and> first_name r = ''Grace'' \<and> last_name r = ''Hopper''
       \<and> date_of_birth r = sample_date \<and> gender r = ''female''
       \<and> p_id r \<notin> set (map p_id (patients clinic_world))"
  by (rule add_patient_persists_inputs)

text \<open>
  C3. For valid inputs (a patient id that the table can hold, as every existing
  patient's id is, and a value for each other required column) \<open>add_lab_result\<close>
  persists a row whose \<open>uploaded_at\<close> is set, to the reading of the server clock taken
  at the insert (the clock of the world the call leaves), which is not before the clock
  at the call. The clock is taken not to run backwards. The file is not looked at.
\<close>

theorem add_lab_result_uploaded_at_not_before_call:
  assumes "sqlite_integer pid"
  shows "\<exists>r w'. add_lab_result (Some pid) (Some tt) (Some td) (Some rd) (Some fp) n t w
                  = (Inr r, w')
           \<and> lab_results w' = lab_results w @ [r]
           \<and> (\<exists>ts. uploaded_at r = Some ts \<and> clock w \<le> ts \<and> ts = clock w')"
  using assms
  by (auto simp: add_lab_result_valid Let_def split: prod.splits dest: utcnow_clock)

theorem add_lab_result_uploaded_at_not_before_call_witness:
  "sqlite_integer 1 \<and> clock clinic_world = 100
   \<and> (\<exists>r w'. add_lab_result (Some 1) (Some ''CBC'') (Some sample_date) (Some sample_date)
                (Some ''uploaded_results/a.pdf'') None None clinic_world = (Inr r, w')
        \<and> lab_results w' = lab_results clinic_world @ [r]
        \<and> (\<exists>ts. uploaded_at r = Some ts \<and> clock clinic_world \<le> ts \<and> ts = clock w'))"
proof -
  have h: "sqlite_integer 1" by (simp add: sqlite_integer_def)
  have "clock clinic_world = 100" by (simp add: sample_defs)
  then show ?thesis
    using h add_lab_result_uploaded_at_not_before_call [OF h, where tt = "''CBC''"
        and td = sample_date and rd = sample_date and fp = "''uploaded_results/a.pdf''"
        and n = None and t = None and w = clinic_world]
    by blast
qed

text \<open>
  C9 (as amended). \<open>add_lab_result\<close> never consults the patients table: its result is the
  same whatever that table holds, and for every integer patient id that an SQLite
  INTEGER can hold (from \<open>-2^63\<close> up to \<open>2^63 - 1\<close>), registered or not, given the other
  required values, it returns the inserted row carrying that id and leaves the patients
  table untouched.
\<close>

theorem add_lab_result_ignores_patients:
  assumes "sqlite_integer pid"
  shows "fst (add_lab_result pid' tt' td' rd' fp' n t (w\<lparr>patients := ps\<rparr>))
           = fst (add_lab_result pid' tt' td' rd' fp' n t w)
         \<and> (\<exists>r w'. add_lab_result (Some pid) (Some tt) (Some td) (Some rd) (Some fp) n t w
                      = (Inr r, w')
               \<and> patient_id r = pid \<and> lab_results w' = lab_results w @ [r]
               \<and> patients w' = patients w)"
proof
  show "fst (add_lab_result pid' tt' td' rd' fp' n t (w\<lparr>patients := ps\<rparr>))
     = fst (add_lab_result pid' tt' td' rd' fp' n t w)"
    by (simp add: add_lab_result_def commit_lab_result_def utcnow_def Let_def
             split: list.splits option.splits)
next
  show "\<exists>r w'. add_lab_result (Some pid) (Some tt) (Some td) (Some rd) (Some fp) n t w
                = (Inr r, w')
         \<and> patient_id r = pid \<and> lab_results w' = lab_results w @ [r]
         \<and> patients w' = patients w"
    using assms
    by (auto simp: add_lab_result_valid Let_def split: prod.splits dest: utcnow_clock)
qed

theorem add_lab_result_ignores_patients_witness:
  "sqlite_integer 42 \<and> query_get fresh_world 42 = None
   \<and> (\<exists>r w'. add_lab_result (Some 42) (Some ''CBC'') (Some sample_date) (Some sample_date)
                (Some ''uploaded_results/a.pdf'') None None fresh_world = (Inr r, w')
         \<and> patient_id r = 42 \<and> lab_results w' = lab_results fresh_world @ [r]
         \<and> patients w' = patients fresh_world)"
proof -
  have h: "sqlite_integer 42" by (simp add: sqlite_integer_def)
  have "query_get fresh_world 42 = None"
    by (simp add: sample_defs query_get_def)
  then show ?thesis
    using h add_lab_result_ignores_patients [OF h, where tt = "''CBC''"
        and td = sample_date and rd = sample_date and fp = "''uploaded_results/a.pdf''"
        and n = None and t = None and w = fresh_world]
    by blast
qed

text \<open>
  C9 as stated ("for every integer patient_id") fails: for the patient id \<open>2^63\<close>, with
  every other required value given, binding the parameter raises \<open>OverflowError\<close>; no
  row is returned and the table stays empty.
\<close>

theorem add_lab_result_patient_id_out_of_range:
  "add_lab_result (Some 9223372036854775808) (Some ''CBC'') (Some sample_date)
     (Some sample_date) (Some ''uploaded_results/a.pdf'') None None clinic_world
   = (Inl OverflowError, clinic_world\<lparr>clock := 105, drift := [7]\<rparr>)
   \<and> lab_results (clinic_world\<lparr>clock := 105, drift := [7]\<rparr>) = []"
  by (simp add: sample_defs run_defs)

subsection \<open>The upload page\<close>

text \<open>
  C4. With no patient registered, a request for the Upload Lab Result page, whatever the
  widgets hold and whether or not the submit button is down, renders the subheader and
  the warning and nothing else (no form), and leaves the world as it was: no file and
  no row is created. The same holds for the whole interaction.
\<close>

theorem upload_page_without_patients:
  assumes "patients w = []"
  shows "upload_lab_result_page inp w =
           (Inr \<lparr>widgets = [Subheader ''Upload Lab Result'',
                             Warning ''No patients found. Please register a patient first.''],
                 rerun = False\<rparr>, w)
         \<and> app (Upload_Lab_Result inp) w = upload_lab_result_page inp w"
  using assms by (simp add: upload_lab_result_page_def app_def)

theorem upload_page_without_patients_witness:
  "patients fresh_world = []
   \<and> upload_lab_result_page upload_a fresh_world =
           (Inr \<lparr>widgets = [Subheader ''Upload Lab Result'',
                             Warning ''No patients found. Please register a patient first.''],
                 rerun = False\<rparr>, fresh_world)
   \<and> app (Upload_Lab_Result upload_a) fresh_world = upload_lab_result_page upload_a fresh_world"
proof -
  have h: "patients fresh_world = []" by (simp add: sample_defs)
  show ?thesis
    using h upload_page_without_patients [OF h, of upload_a] by simp
qed

text \<open>
  C5. When the form is shown (a patient is registered) and is submitted with no file
  attached, the page renders the form with the error "Please upload a file!" inside it,
  requests no rerun, and leaves the world as it was: no file is written and no row is
  inserted.
\<close>

theorem upload_page_submit_without_file:
  assumes "patients w \<noteq> []" "lf_submitted inp" "lf_file inp = None"
  shows "\<exists>labels. upload_lab_result_page inp w =
           (Inr \<lparr>widgets = [Subheader ''Upload Lab Result'',
                             Form ''lab_result_form''
                               (lab_result_form_widgets labels
                                @ [Error ''Please upload a file!''])],
                 rerun = False\<rparr>, w)"
proof -
  obtain labels where l: "mapM_sum (format_func w) (map p_id (patients w)) = Inr labels"
    using labels_exist by blast
  show ?thesis
    using assms l by (intro exI [of _ labels]) (simp add: upload_lab_result_page_def)
qed

theorem upload_page_submit_without_file_witness:
  "patients clinic_world \<noteq> [] \<and> lf_submitted (upload_a\<lparr>lf_file := None\<rparr>)
   \<and> lf_file (upload_a\<lparr>lf_file := None\<rparr>) = None
   \<and> (\<exists>labels. upload_lab_result_page (upload_a\<lparr>lf_file := None\<rparr>) clinic_world =
           (Inr \<lparr>widgets = [Subheader ''Upload Lab Result'',
                             Form ''lab_result_form''
                               (lab_result_form_widgets labels
                                @ [Error ''Please upload a file!''])],
                 rerun = False\<rparr>, clinic_world))"
proof -
  have h1: "patients clinic_world \<noteq> []" by (simp add: sample_defs)
  have h2: "lf_submitted (upload_a\<lparr>lf_file := None\<rparr>)" by (simp add: sample_defs)
  have h3: "lf_file (upload_a\<lparr>lf_file := None\<rparr>) = None" by simp
  show ?thesis
    using h1 h2 h3 upload_page_submit_without_file [OF h1 h2 h3] by blast
qed



text \<open>
  C7. Two successful uploads, one after the other, of files with the same name: after
  the first the path holds the first file's bytes, after the second it holds the second
  file's bytes, and the two rows appended to the results table hold the same
  \<open>file_path\<close>, the join of the upload directory and the name. The other fields of the
  two forms (patient, test type, dates) are arbitrary.
\<close>

theorem same_name_last_write_wins:
  assumes "patients w \<noteq> []"
    and "lf_submitted inp1" "lf_file inp1 = Some f1"
    and "lf_submitted inp2" "lf_file inp2 = Some f2"
    and same: "uf_name f2 = uf_name f1"
    and u1: "upload_lab_result_page inp1 w = (Inr out1, w1)"
    and u2: "upload_lab_result_page inp2 w1 = (Inr out2, w2)"
  shows "\<exists>r1 r2. lab_results w2 = lab_results w @ [r1, r2]
           \<and> file_path r1 = path_join save_dir (uf_name f1)
           \<and> file_path r2 = file_path r1
           \<and> files w1 (file_path r1) = Some (getbuffer f1)
           \<and> files w2 (file_path r1) = Some (getbuffer f2)"
proof -
  from upload_success [OF assms(1-3) u1] obtain r1 where
    r1: "lab_results w1 = lab_results w @ [r1]" "file_path r1 = path_join save_dir (uf_name f1)"
        "files w1 = (files w)(file_path r1 \<mapsto> getbuffer f1)" "patients w1 = patients w"
    by blast
  have "patients w1 \<noteq> []" using r1(4) assms(1) by simp
  from upload_success [OF this assms(4,5) u2] obtain r2 where
    r2: "lab_results w2 = lab_results w1 @ [r2]" "file_path r2 = path_join save_dir (uf_name f2)"
        "files w2 = (files w1)(file_path r2 \<mapsto> getbuffer f2)"
    by blast
  show ?thesis
    using r1 r2 same by (intro exI [of _ r1] exI [of _ r2]) simp
qed

theorem same_name_last_write_wins_witness:
  "patients clinic_world \<noteq> [] \<and> uf_name report_b = uf_name report_a
   \<and> getbuffer report_b \<noteq> getbuffer report_a
   \<and> upload_lab_result_page upload_a clinic_world = (Inr uploaded_out, after_a)
   \<and> upload_lab_result_page upload_b after_a = (Inr uploaded_out, after_b)
   \<and> (\<exists>r1 r2. lab_results after_b = lab_results clinic_world @ [r1, r2]
          \<and> file_path r1 = path_join save_dir (uf_name report_a)
          \<and> file_path r2 = file_path r1
          \<and> files after_a (file_path r1) = Some (getbuffer report_a)
          \<and> files after_b (file_path r1) = Some (getbuffer report_b))"
proof -
  have h1: "patients clinic_world \<noteq> []" by (simp add: sample_defs)
  have h2: "lf_submitted upload_a" "lf_file upload_a = Some report_a"
    by (simp_all add: sample_defs)
  have h3: "lf_submitted upload_b" "lf_file upload_b = Some report_b"
    by (simp_all add: sample_defs)
  have h4: "uf_name report_b = uf_name report_a" by (simp add: sample_defs)
  have h5: "getbuffer report_b \<noteq> getbuffer report_a" by (simp add: sample_defs)
  show ?thesis
    using h1 h4 h5 upload_a_runs upload_b_runs
      same_name_last_write_wins [OF h1 h2 h3 h4 upload_a_runs upload_b_runs]
    by simp
qed

text \<open>
  C10. For an uploaded file whose name holds no path separator, a successful upload
  stores the row with \<open>file_path\<close> the join of "uploaded_results" and the name, which is
  the directory, a separator and the name; the basename of the stored path is the name
  again; and whenever a pass of the listing's loop renders that row, in any world and
  after any earlier rows, every download button it renders offers the original name.
\<close>

theorem file_name_round_trip:
  assumes "CHR ''/'' \<notin> set (uf_name f)"
    and "patients w \<noteq> []" "lf_submitted inp" "lf_file inp = Some f"
    and "upload_lab_result_page inp w = (Inr out, w')"
  shows "\<exists>r. lab_results w' = lab_results w @ [r]
           \<and> file_path r = path_join save_dir (uf_name f)
           \<and> file_path r = ''uploaded_results'' @ ''/'' @ uf_name f
           \<and> basename (file_path r) = uf_name f
           \<and> (\<forall>w2 seen x seen'. render_result w2 seen r = Inr (x, seen')
                 \<longrightarrow> set (download_names x) \<subseteq> {uf_name f})"
proof -
  from upload_success [OF assms(2-5)] obtain r where
    r: "lab_results w' = lab_results w @ [r]" "file_path r = path_join save_dir (uf_name f)"
    by blast
  have fp: "file_path r = save_dir @ ''/'' @ uf_name f"
    using r(2) path_join_plain [OF assms(1)] by simp
  have bn: "basename (file_path r) = uf_name f"
    unfolding fp by (rule basename_append [OF assms(1)])
  have names: "\<forall>w2 seen x seen'. render_result w2 seen r = Inr (x, seen')
                 \<longrightarrow> set (download_names x) \<subseteq> {uf_name f}"
    using render_result_names [of _ _ r] bn by metis
  have "file_path r = ''uploaded_results'' @ ''/'' @ uf_name f"
    using fp by (simp add: save_dir_def)
  then show ?thesis using r bn names by blast
qed

theorem file_name_round_trip_witness:
  "CHR ''/'' \<notin> set (uf_name report_a) \<and> patients clinic_world \<noteq> []
   \<and> upload_lab_result_page upload_a clinic_world = (Inr uploaded_out, after_a)
   \<and> render_result after_a [] stored_a =
        Inr (Expander ''Result: CBC | Patient: Ada Lovelace''
               [Write ''**Test Type:** CBC'', Write ''**Test Date:** 2024-03-07'',
                Write ''**Result Date:** 2024-03-07'', Write ''**Status:** completed'',
                Write ''**Lab Technician:** Kim'',
                DownloadButton ''Download Result File'' [1, 2, 3] ''a.pdf''],
             [''a.pdf''])
   \<and> (\<exists>r. lab_results after_a = lab_results clinic_world @ [r]
          \<and> file_path r = path_join save_dir (uf_name report_a)
          \<and> file_path r = ''uploaded_results'' @ ''/'' @ uf_name report_a
          \<and> basename (file_path r) = uf_name report_a
          \<and> (\<forall>w2 seen x seen'. render_result w2 seen r = Inr (x, seen')
                 \<longrightarrow> set (download_names x) \<subseteq> {uf_name report_a}))"
proof -
  have h0: "CHR ''/'' \<notin> set (uf_name report_a)" by (simp add: sample_defs)
  have h1: "patients clinic_world \<noteq> []" by (simp add: sample_defs)
  have h2: "lf_submitted upload_a" "lf_file upload_a = Some report_a"
    by (simp_all add: sample_defs)
  have shown: "render_result after_a [] stored_a =
        Inr (Expander ''Result: CBC | Patient: Ada Lovelace''
               [Write ''**Test Type:** CBC'', Write ''**Test Date:** 2024-03-07'',
                Write ''**Result Date:** 2024-03-07'', Write ''**Status:** completed'',
                Write ''**Lab Technician:** Kim'',
                DownloadButton ''Download Result File'' [1, 2, 3] ''a.pdf''],
             [''a.pdf''])"
    by (simp add: sample_defs listing_defs)
  show ?thesis
    using h0 h1 upload_a_runs shown file_name_round_trip [OF h0 h1 h2 upload_a_runs]
    by simp
qed

subsection \<open>The listing\<close>

text \<open>
  C6. The claim is what the guard of line 176 is there for, and the pass of the loop for
  a row whose file is missing does render the row without a download. But the listing
  as a whole does not keep the claim. In the clinic after a.pdf has been uploaded
  twice and c.pdf once, with c.pdf then removed from the disk, the second row's download
  button has the label and the file name of the first row's and no key: the listing
  raises \<open>StreamlitDuplicateElementId\<close> there, and the third row, the one whose file is
  missing, is never displayed.
\<close>

theorem listing_raises_on_shared_file_name:
  "upload_lab_result_page upload_a clinic_world = (Inr uploaded_out, after_a)
   \<and> upload_lab_result_page upload_b after_a = (Inr uploaded_out, after_b)
   \<and> upload_lab_result_page upload_c after_b = (Inr uploaded_out, after_c)
   \<and> lab_results shared_name_world = [stored_a, stored_b, stored_c]
   \<and> files shared_name_world (file_path stored_c) = None
   \<and> file_path stored_c \<notin> dirs shared_name_world
   \<and> render_result shared_name_world [] stored_c =
        Inr (Expander ''Result: HbA1c | Patient: Ada Lovelace''
               [Write ''**Test Type:** HbA1c'', Write ''**Test Date:** 2024-03-07'',
                Write ''**Result Date:** 2024-03-07'', Write ''**Status:** completed'',
                Write ''**Lab Technician:** Kim''],
             [])
   \<and> view_lab_results_page shared_name_world
       = (Inl StreamlitDuplicateElementId, shared_name_world)"
proof -
  have rows: "lab_results shared_name_world = [stored_a, stored_b, stored_c]"
    by (simp add: sample_defs)
  have gone: "files shared_name_world (file_path stored_c) = None"
    by (simp add: sample_defs)
  have nodir: "file_path stored_c \<notin> dirs shared_name_world"
    by (simp add: sample_defs)
  have own: "render_result shared_name_world [] stored_c =
        Inr (Expander ''Result: HbA1c | Patient: Ada Lovelace''
               [Write ''**Test Type:** HbA1c'', Write ''**Test Date:** 2024-03-07'',
                Write ''**Result Date:** 2024-03-07'', Write ''**Status:** completed'',
                Write ''**Lab Technician:** Kim''],
             [])"
    by (simp add: sample_defs listing_defs)
  have raises: "view_lab_results_page shared_name_world
       = (Inl StreamlitDuplicateElementId, shared_name_world)"
    by (simp add: sample_defs listing_defs)
  show ?thesis
    using upload_a_runs upload_b_runs upload_c_runs rows gone nodir own raises by simp
qed

end
